theory Spec2Isabelle
  imports Main
begin

section \<open>JavaScript values read by the chat component\<close>

text \<open>
  The chat component (\<^verbatim>\<open>src/components/ChatInterface.tsx\<close>) receives payloads of
  type \<^verbatim>\<open>any\<close> from the SDK: responses, streamed chunks and thrown values. They are
  modelled as plain data trees. Numbers are represented by their integer value plus
  \<open>JNaN\<close>; the component only looks at the truthiness and the \<^verbatim>\<open>typeof\<close> of a number.
  Objects are association lists from keys to values (the first binding of a key counts).
\<close>

datatype jsval =
    JUndefined
  | JNull
  | JBool bool
  | JNum int
  | JNaN
  | JStr string
  | JArr "jsval list"
  | JObj "(string \<times> jsval) list"

text \<open>
  A thrown value is either a native \<^verbatim>\<open>Error\<close> instance (the only thing for which
  \<^verbatim>\<open>error instanceof Error\<close> holds), carrying its message, or any other value.
\<close>

datatype thrown = NativeError string | Thrown jsval

datatype 'a result = Throw thrown | Ok 'a

fun rbind :: "'a result \<Rightarrow> ('a \<Rightarrow> 'b result) \<Rightarrow> 'b result" where
  "rbind (Throw e) f = Throw e"
| "rbind (Ok x) f = f x"

fun truthy :: "jsval \<Rightarrow> bool" where
  "truthy JUndefined = False"
| "truthy JNull = False"
| "truthy (JBool b) = b"
| "truthy (JNum n) = (n \<noteq> 0)"
| "truthy JNaN = False"
| "truthy (JStr s) = (s \<noteq> [])"
| "truthy (JArr xs) = True"
| "truthy (JObj kvs) = True"

fun typeof :: "jsval \<Rightarrow> string" where
  "typeof JUndefined = ''undefined''"
| "typeof JNull = ''object''"
| "typeof (JBool b) = ''boolean''"
| "typeof (JNum n) = ''number''"
| "typeof JNaN = ''number''"
| "typeof (JStr s) = ''string''"
| "typeof (JArr xs) = ''object''"
| "typeof (JObj kvs) = ''object''"

fun isArray :: "jsval \<Rightarrow> bool" where
  "isArray (JArr xs) = True"
| "isArray v = False"

text \<open>
  \<open>optProp v k\<close> is \<^verbatim>\<open>v?.k\<close> and \<open>getProp v k\<close> is \<^verbatim>\<open>v.k\<close>, which throws a
  \<^verbatim>\<open>TypeError\<close> on \<^verbatim>\<open>null\<close> and \<^verbatim>\<open>undefined\<close>. Only the keys \<^verbatim>\<open>text\<close>,
  \<^verbatim>\<open>message\<close>, \<^verbatim>\<open>content\<close> and \<^verbatim>\<open>error\<close> are ever read, none of which a
  primitive, a string or an array has.
\<close>

fun optProp :: "jsval \<Rightarrow> string \<Rightarrow> jsval" where
  "optProp (JObj kvs) k = (case map_of kvs k of Some v \<Rightarrow> v | None \<Rightarrow> JUndefined)"
| "optProp v k = JUndefined"

fun getProp :: "jsval \<Rightarrow> string \<Rightarrow> jsval result" where
  "getProp JUndefined k =
     Throw (NativeError (''Cannot read properties of undefined (reading '' @ [CHR 0x27] @ k @ [CHR 0x27] @ '')''))"
| "getProp JNull k =
     Throw (NativeError (''Cannot read properties of null (reading '' @ [CHR 0x27] @ k @ [CHR 0x27] @ '')''))"
| "getProp v k = Ok (optProp v k)"

text \<open>\<open>nullish a b\<close> is \<^verbatim>\<open>a ?? b\<close>.\<close>

fun nullish :: "jsval \<Rightarrow> jsval \<Rightarrow> jsval" where
  "nullish JUndefined d = d"
| "nullish JNull d = d"
| "nullish v d = v"

text \<open>
  \<open>inOp k v\<close> is \<^verbatim>\<open>k in v\<close>: a \<^verbatim>\<open>TypeError\<close> unless \<open>v\<close> is an object; on an object it
  holds when the key is present, whatever its value.
\<close>

fun inOp :: "string \<Rightarrow> jsval \<Rightarrow> bool result" where
  "inOp k (JObj kvs) = Ok (k \<in> fst ` set kvs)"
| "inOp k (JArr xs) = Ok False"
| "inOp k JNull =
     Throw (NativeError (''Cannot use '' @ [CHR 0x27] @ ''in'' @ [CHR 0x27] @ '' operator to search for ''
        @ [CHR 0x27] @ k @ [CHR 0x27] @ '' in null''))"
| "inOp k v =
     Throw (NativeError (''Cannot use '' @ [CHR 0x27] @ ''in'' @ [CHR 0x27] @ '' operator to search for ''
        @ [CHR 0x27] @ k @ [CHR 0x27] @ '' in a primitive''))"

fun mapResult :: "('a \<Rightarrow> 'b result) \<Rightarrow> 'a list \<Rightarrow> 'b list result" where
  "mapResult f [] = Ok []"
| "mapResult f (x # xs) = rbind (f x) (\<lambda>y. rbind (mapResult f xs) (\<lambda>ys. Ok (y # ys)))"

fun elems :: "jsval \<Rightarrow> jsval list" where
  "elems (JArr xs) = xs"
| "elems v = []"

text \<open>\<open>firstElem v\<close> is \<^verbatim>\<open>v[0]\<close> on an array: \<^verbatim>\<open>undefined\<close> when it is empty.\<close>

fun firstElem :: "jsval \<Rightarrow> jsval" where
  "firstElem (JArr (x # xs)) = x"
| "firstElem v = JUndefined"

section \<open>The response normalizer\<close>

text \<open>
  The callback of \<^verbatim>\<open>message.content.map\<close> in \<^verbatim>\<open>extractResponseText\<close>: the string a
  part contributes.
\<close>

definition partText :: "jsval \<Rightarrow> string result" where
  "partText item =
     (if \<not> truthy item then Ok ''''
      else case item of
        JStr s \<Rightarrow> Ok s
      | _ \<Rightarrow> rbind (getProp item ''text'') (\<lambda>t.
          case t of JStr s \<Rightarrow> Ok s | _ \<Rightarrow> Ok ''''))"

text \<open>
  \<^verbatim>\<open>extractResponseText\<close>, lines 44 to 74. Its declared return type is \<^verbatim>\<open>string\<close>, but
  the payload is \<^verbatim>\<open>any\<close>, so the model returns the value the JavaScript returns.
\<close>

definition extractResponseText :: "jsval \<Rightarrow> jsval result" where
  "extractResponseText payload =
     (if \<not> truthy payload then Ok (JStr '''')
      else if typeof payload = ''string'' then Ok payload
      else if typeof (optProp payload ''text'') = ''string'' then getProp payload ''text''
      else rbind (getProp payload ''message'') (\<lambda>pm.
        let message = nullish pm payload in
        if typeof message = ''string'' then Ok message
        else if typeof (optProp message ''content'') = ''string'' then getProp message ''content''
        else if isArray (optProp message ''content'') then
          rbind (getProp message ''content'') (\<lambda>c.
          rbind (mapResult partText (elems c)) (\<lambda>parts. Ok (JStr (concat parts))))
        else if typeof (optProp message ''content'') = ''object'' \<and> optProp message ''content'' \<noteq> JNull then
          rbind (getProp message ''content'') (\<lambda>c.
          rbind (inOp ''text'' c) (\<lambda>present.
            if present then rbind (getProp c ''text'') (\<lambda>t. Ok (nullish t (JStr '''')))
            else Ok (JStr '''')))
        else Ok (JStr '''')))"

text \<open>
  \<^verbatim>\<open>extractContent\<close>, the local function of the non-streaming branch of
  \<^verbatim>\<open>sendMessage\<close>, lines 637 to 651.
\<close>

definition extractContent :: "jsval \<Rightarrow> jsval result" where
  "extractContent response =
     (if \<not> truthy (optProp response ''message'') then Ok (JStr ''No response.'')
      else rbind (getProp response ''message'') (\<lambda>message.
        if typeof message = ''string'' then Ok message
        else if typeof message = ''object'' \<and> message \<noteq> JNull then
          rbind (getProp message ''content'') (\<lambda>content.
            if typeof content = ''string'' then Ok content
            else if isArray content \<and> truthy (optProp (firstElem content) ''text'') then
              getProp (firstElem content) ''text''
            else if typeof content = ''object'' then
              rbind (inOp ''text'' content) (\<lambda>present.
                if present then getProp content ''text'' else Ok (JStr ''No response.''))
            else Ok (JStr ''No response.''))
        else Ok (JStr ''No response.'')))"

section \<open>Files, attachments and messages\<close>

text \<open>The fields of a browser \<^verbatim>\<open>File\<close> that the component reads.\<close>

record fileObj =
  f_name :: string
  f_type :: string
  f_size :: nat

text \<open>\<^verbatim>\<open>Attachment\<close> of \<^verbatim>\<open>types.ts\<close>; its \<^verbatim>\<open>error\<close> field is never written.\<close>

record attachment =
  a_id :: string
  a_file :: "fileObj option"
  a_name :: string
  a_size :: nat
  a_type :: string
  previewUrl :: "string option"
  isImage :: bool
  puterPath :: "string option"
  uploadProgress :: "nat option"

record attachmentConfig =
  maxSize :: nat
  maxCount :: nat
  allowedTypes :: "string list"

datatype messagePart = TextPart string | FilePart string

text \<open>
  \<^verbatim>\<open>MessageContent\<close> is a string or a list of parts. \<open>Raw\<close> holds a value that is
  neither and reaches a message through the untyped non-streaming branch.
\<close>

datatype messageContent = Text string | Parts "messagePart list" | Raw jsval

datatype roleType = User | Assistant

record message =
  role :: roleType
  content :: messageContent
  msg_attachments :: "attachment list option"
  videoUrl :: "string option"
  isStreaming :: bool

text \<open>
  What the browser and the JavaScript runtime supply: the string conversion of a value
  that is not a string, \<^verbatim>\<open>JSON.stringify\<close> (\<open>None\<close> when it throws),
  \<^verbatim>\<open>formatFileSize\<close> (floating point in the source), the clock and random part of
  the \<open>i\<close>-th temporary file name of an upload, and \<^verbatim>\<open>URL.createObjectURL\<close>.
\<close>

record host =
  toStr :: "jsval \<Rightarrow> string"
  stringify :: "jsval \<Rightarrow> string option"
  formatFileSize :: "nat \<Rightarrow> string"
  stamp :: "nat \<Rightarrow> string"
  createObjectURL :: "fileObj \<Rightarrow> string"

text \<open>The value of a template literal or of \<^verbatim>\<open>'' + v\<close>.\<close>

fun str :: "host \<Rightarrow> jsval \<Rightarrow> string" where
  "str h (JStr s) = s"
| "str h v = toStr h v"

fun showNat :: "nat \<Rightarrow> string" where
  "showNat n =
     (if n < 10 then [''0123456789'' ! n]
      else showNat (n div 10) @ [''0123456789'' ! (n mod 10)])"

section \<open>The attachment manager\<close>

definition validateFile :: "attachmentConfig \<Rightarrow> host \<Rightarrow> fileObj \<Rightarrow> nat \<Rightarrow> string option" where
  "validateFile cfg h f currentCount =
     (if f_type f \<notin> set (allowedTypes cfg) then
        Some (''File type '' @ (if f_type f \<noteq> [] then f_type f else ''unknown'') @ '' is not supported'')
      else if f_size f > maxSize cfg then
        Some (''File size exceeds '' @ formatFileSize h (maxSize cfg) @ '' limit'')
      else if currentCount \<ge> maxCount cfg then
        Some (''Maximum '' @ showNat (maxCount cfg) @ '' files allowed'')
      else None)"

definition createAttachment :: "host \<Rightarrow> string \<Rightarrow> fileObj \<Rightarrow> attachment" where
  "createAttachment h ident f =
     (let img = (take 6 (f_type f) = ''image/'') in
      \<lparr> a_id = ident, a_file = Some f, a_name = f_name f, a_size = f_size f, a_type = f_type f,
        previewUrl = (if img then Some (createObjectURL h f) else None),
        isImage = img, puterPath = None, uploadProgress = Some 0 \<rparr>)"

text \<open>
  The loop of \<^verbatim>\<open>addAttachments\<close>, lines 333 to 342. \<open>ids k\<close> is the identifier that
  \<^verbatim>\<open>crypto.randomUUID\<close> gives to the \<open>k\<close>-th accepted file of the batch. The result
  is the additions, the logged errors and the running count.
\<close>

fun addLoop :: "attachmentConfig \<Rightarrow> host \<Rightarrow> (nat \<Rightarrow> string) \<Rightarrow> fileObj list
    \<Rightarrow> attachment list \<Rightarrow> string list \<Rightarrow> nat \<Rightarrow> attachment list \<times> string list \<times> nat" where
  "addLoop cfg h ids [] additions errors runningCount = (additions, errors, runningCount)"
| "addLoop cfg h ids (f # fs) additions errors runningCount =
     (case validateFile cfg h f runningCount of
        Some err \<Rightarrow> addLoop cfg h ids fs additions (errors @ [f_name f @ '': '' @ err]) runningCount
      | None \<Rightarrow>
          addLoop cfg h ids fs (additions @ [createAttachment h (ids (length additions)) f]) errors
            (runningCount + 1))"

text \<open>
  \<^verbatim>\<open>addAttachments\<close>: the new attachment collection and the errors written to the
  console.
\<close>

definition addAttachments :: "attachmentConfig \<Rightarrow> host \<Rightarrow> (nat \<Rightarrow> string) \<Rightarrow> fileObj list
    \<Rightarrow> attachment list \<Rightarrow> attachment list \<times> string list" where
  "addAttachments cfg h ids files current =
     (if files = [] then (current, [])
      else case addLoop cfg h ids files [] [] (length current) of
        (additions, errors, n) \<Rightarrow>
          (if additions = [] then current else current @ additions, errors))"

definition removeAttachment :: "string \<Rightarrow> attachment list \<Rightarrow> attachment list" where
  "removeAttachment ident prev = filter (\<lambda>att. a_id att \<noteq> ident) prev"

definition sanitizeAttachments :: "attachment list \<Rightarrow> attachment list" where
  "sanitizeAttachments items = map (\<lambda>a. a\<lparr>a_file := None, uploadProgress := None\<rparr>) items"

definition isAlnum :: "char \<Rightarrow> bool" where
  "isAlnum c = (let n = (of_char c :: nat) in
     (48 \<le> n \<and> n \<le> 57) \<or> (65 \<le> n \<and> n \<le> 90) \<or> (97 \<le> n \<and> n \<le> 122))"

text \<open>The match of \<^verbatim>\<open>/(\.[a-zA-Z0-9]+)$/\<close>, or the empty string.\<close>

definition extensionOf :: "string \<Rightarrow> string" where
  "extensionOf originalName =
     (let run = takeWhile isAlnum (rev originalName) in
      case dropWhile isAlnum (rev originalName) of
        c # before \<Rightarrow> if c = CHR ''.'' \<and> run \<noteq> [] then c # rev run else []
      | [] \<Rightarrow> [])"

definition generateTempFilename :: "host \<Rightarrow> nat \<Rightarrow> string \<Rightarrow> string" where
  "generateTempFilename h i originalName = ''claude_upload_'' @ stamp h i @ extensionOf originalName"

text \<open>The storage capability \<^verbatim>\<open>window.puter.fs\<close>: a call resolves or rejects.\<close>

record puterFS =
  fs_write :: "string \<Rightarrow> fileObj \<Rightarrow> string result"
  fs_delete :: "string \<Rightarrow> unit result"

text \<open>\<^verbatim>\<open>Set.prototype.add\<close> on a set kept in insertion order.\<close>

definition setAdd :: "string \<Rightarrow> string list \<Rightarrow> string list" where
  "setAdd x xs = (if x \<in> set xs then xs else xs @ [x])"

text \<open>
  The loop of \<^verbatim>\<open>uploadAttachments\<close>, lines 382 to 392, over the session file set.
  \<open>i\<close> counts the temporary names generated so far.
\<close>

fun uploadLoop :: "puterFS \<Rightarrow> host \<Rightarrow> attachment list \<Rightarrow> attachment list \<Rightarrow> string list \<Rightarrow> nat
    \<Rightarrow> attachment list result \<times> string list" where
  "uploadLoop f h [] uploaded sess i = (Ok uploaded, sess)"
| "uploadLoop f h (a # rest) uploaded sess i =
     (case a_file a of
        None \<Rightarrow> uploadLoop f h rest uploaded sess i
      | Some fl \<Rightarrow>
          (case fs_write f (generateTempFilename h i (a_name a)) fl of
             Throw e \<Rightarrow> (Throw e, sess)
           | Ok path \<Rightarrow>
               uploadLoop f h rest (uploaded @ [a\<lparr>a_file := None, puterPath := Some path\<rparr>])
                 (setAdd path sess) (i + 1)))"

definition uploadAttachments :: "puterFS option \<Rightarrow> host \<Rightarrow> attachment list \<Rightarrow> string list
    \<Rightarrow> attachment list result \<times> string list" where
  "uploadAttachments fso h files sess =
     (case fso of
        None \<Rightarrow> (Throw (NativeError ''File uploads are not supported in this environment.''), sess)
      | Some f \<Rightarrow> uploadLoop f h files [] sess 0)"

text \<open>
  The file parts of \<^verbatim>\<open>buildUserMessageContent\<close>: the filter keeps an attachment whose
  \<^verbatim>\<open>puterPath\<close> is truthy, that is present and not the empty string.
\<close>

fun fileParts :: "attachment list \<Rightarrow> messagePart list" where
  "fileParts [] = []"
| "fileParts (att # rest) =
     (case puterPath att of
        Some p \<Rightarrow> if p \<noteq> [] then FilePart p # fileParts rest else fileParts rest
      | None \<Rightarrow> fileParts rest)"

definition buildUserMessageContent :: "string \<Rightarrow> attachment list \<Rightarrow> messageContent" where
  "buildUserMessageContent text uploaded =
     (if uploaded = [] then Text text
      else Parts (fileParts uploaded @ (if text \<noteq> [] then [TextPart text] else [])))"

text \<open>
  \<^verbatim>\<open>cleanupSessionFiles\<close>, lines 417 to 428. One callback per recorded path: it calls
  \<^verbatim>\<open>delete\<close> and catches a rejection, which becomes a console warning.
\<close>

definition deleteOne :: "puterFS \<Rightarrow> string \<Rightarrow> string \<times> thrown option" where
  "deleteOne f path = (case fs_delete f path of Throw e \<Rightarrow> (path, Some e) | Ok u \<Rightarrow> (path, None))"

record cleanupRun =
  remaining :: "string list"
  attempts :: "(string \<times> thrown option) list"

definition cleanupSessionFiles :: "puterFS option \<Rightarrow> string list \<Rightarrow> cleanupRun" where
  "cleanupSessionFiles fso sess =
     (case fso of
        None \<Rightarrow> \<lparr> remaining = sess, attempts = [] \<rparr>
      | Some f \<Rightarrow> \<lparr> remaining = [], attempts = map (deleteOne f) sess \<rparr>)"

section \<open>The chat session controller\<close>

text \<open>
  What \<^verbatim>\<open>puter.ai.chat\<close> resolves to: an async iterable, given by the chunks it yields
  and by how it ends (it completes, or its iterator rejects with a thrown value), or any
  other value.
\<close>

datatype response = Stream "jsval list" "thrown option" | Plain jsval

record chatOptions =
  opt_model :: string
  opt_stream :: bool
  web_search_options :: "(string \<times> nat) option"

record videoOptions =
  test_mode :: bool
  input_reference :: "fileObj option"

text \<open>\<^verbatim>\<open>window.puter\<close>; \<^verbatim>\<open>txt2vid\<close> is given by the \<^verbatim>\<open>src\<close> of the element it returns.\<close>

record puterSDK =
  ai_chat :: "message list \<Rightarrow> chatOptions \<Rightarrow> response result"
  ai_txt2vid :: "string \<Rightarrow> videoOptions \<Rightarrow> string result"
  fs :: "puterFS option"

datatype statusType = Ready | Thinking | Error

text \<open>
  The state of one \<^verbatim>\<open>ChatInterface\<close>: \<open>messages\<close> is the display log,
  \<open>conversationRef\<close> the API log, \<open>sessionFilesRef\<close> the session file set in insertion
  order, and \<open>timers\<close> the callbacks registered with \<^verbatim>\<open>setTimeout\<close> that have not run
  yet, each with its delay in milliseconds and the status it sets.
\<close>

record chatState =
  messages :: "message list"
  input :: string
  status :: statusType
  conversationRef :: "message list"
  attachments :: "attachment list"
  sessionFilesRef :: "string list"
  timers :: "(nat \<times> statusType) list"

definition initialState :: chatState where
  "initialState = \<lparr> messages = [], input = [], status = Ready, conversationRef = [],
     attachments = [], sessionFilesRef = [], timers = [] \<rparr>"

definition attachmentConfig :: attachmentConfig where
  "attachmentConfig = \<lparr> maxSize = 10 * 1024 * 1024, maxCount = 5,
     allowedTypes = [''image/jpeg'', ''image/jpg'', ''image/png'', ''image/gif'', ''image/webp'',
       ''image/svg+xml'', ''application/pdf'', ''application/msword'',
       ''application/vnd.openxmlformats-officedocument.wordprocessingml.document'',
       ''text/plain'', ''text/markdown''] \<rparr>"

text \<open>
  \<^verbatim>\<open>String.prototype.trim\<close> on the ASCII white space and line terminators.
\<close>

definition isSpace :: "char \<Rightarrow> bool" where
  "isSpace c = (c \<in> set [CHR 0x20, CHR 0x09, CHR 0x0A, CHR 0x0B, CHR 0x0C, CHR 0x0D])"

definition trim :: "string \<Rightarrow> string" where
  "trim s = rev (dropWhile isSpace (rev (dropWhile isSpace s)))"

definition plainMessage :: "roleType \<Rightarrow> messageContent \<Rightarrow> message" where
  "plainMessage r c =
     \<lparr> role = r, content = c, msg_attachments = None, videoUrl = None, isStreaming = False \<rparr>"

text \<open>The guard on line 501.\<close>

definition blocked :: "chatState \<Rightarrow> bool" where
  "blocked s = (status s = Thinking \<or> (trim (input s) = [] \<and> attachments s = []))"

definition userMessageDisplay :: "chatState \<Rightarrow> message" where
  "userMessageDisplay s =
     (let textToSend = trim (input s);
          displayAttachments = sanitizeAttachments (attachments s)
      in \<lparr> role = User,
           content = Text (if textToSend \<noteq> [] then textToSend
                           else if displayAttachments \<noteq> [] then ''[Attachment]'' else []),
           msg_attachments = Some displayAttachments, videoUrl = None, isStreaming = False \<rparr>)"

text \<open>Lines 504 to 522: the state when the \<^verbatim>\<open>try\<close> block is entered.\<close>

definition beginTurn :: "chatState \<Rightarrow> chatState" where
  "beginTurn s = s\<lparr> input := [], attachments := [], status := Thinking,
     messages := messages s @ [userMessageDisplay s] \<rparr>"

definition videoMessage :: "string \<Rightarrow> message" where
  "videoMessage src = \<lparr> role = Assistant, content = Text ''Here is your generated video:'',
     msg_attachments = None, videoUrl = Some src, isStreaming = False \<rparr>"

text \<open>
  The video branch, lines 537 to 562. A phase of the \<^verbatim>\<open>try\<close> block returns the thrown
  value, if any, and the state reached.
\<close>

definition videoPhase :: "puterSDK \<Rightarrow> string \<Rightarrow> attachment list \<Rightarrow> chatState
    \<Rightarrow> thrown option \<times> chatState" where
  "videoPhase p textToSend attachmentsToSend s =
     (let videoPrompt =
            (if textToSend \<noteq> [] then textToSend
             else case attachmentsToSend of
               a # rest \<Rightarrow> if a_name a \<noteq> [] then ''Video based on '' @ a_name a else ''Generate a video''
             | [] \<Rightarrow> ''Generate a video'');
          options = \<lparr> test_mode = True,
            input_reference = (case attachmentsToSend of a # rest \<Rightarrow> a_file a | [] \<Rightarrow> None) \<rparr>
      in case ai_txt2vid p videoPrompt options of
           Throw e \<Rightarrow> (Some e, s)
         | Ok src \<Rightarrow>
             (None, s\<lparr> conversationRef := conversationRef s @ [videoMessage src],
                       messages := messages s @ [videoMessage src], status := Ready \<rparr>))"

definition userMessageForApi :: "string \<Rightarrow> attachment list \<Rightarrow> message" where
  "userMessageForApi textToSend uploadedFiles =
     plainMessage User (buildUserMessageContent textToSend uploadedFiles)"

definition chatOptionsFor :: "string \<Rightarrow> chatOptions" where
  "chatOptionsFor modelId = \<lparr> opt_model = modelId, opt_stream = True,
     web_search_options =
       (if modelId = ''x-ai/grok-4.1-fast'' \<or> take 5 modelId = ''grok-'' then Some (''on'', 5) else None) \<rparr>"

definition placeholder :: message where
  "placeholder = \<lparr> role = Assistant, content = Text [], msg_attachments = None, videoUrl = None,
     isStreaming = True \<rparr>"

text \<open>Lines 600 to 609: the placeholder is one object, appended to both logs.\<close>

definition startAssistant :: "chatState \<Rightarrow> chatState" where
  "startAssistant s = s\<lparr> conversationRef := conversationRef s @ [placeholder],
     messages := messages s @ [placeholder], status := Thinking \<rparr>"

text \<open>Line 622: the text of a chunk, before it is converted by \<^verbatim>\<open>+=\<close>.\<close>

definition chunkText :: "jsval \<Rightarrow> jsval" where
  "chunkText part =
     (case part of
        JStr s \<Rightarrow> part
      | _ \<Rightarrow> if truthy (optProp part ''text'') then optProp part ''text'' else JStr [])"

fun setLastContent :: "messageContent \<Rightarrow> message list \<Rightarrow> message list" where
  "setLastContent c [] = []"
| "setLastContent c [m] = [m\<lparr>content := c\<rparr>]"
| "setLastContent c (m # m' # ms) = m # setLastContent c (m' # ms)"

text \<open>
  The updater of lines 626 to 633 assigns to the \<^verbatim>\<open>content\<close> of the last display
  message when that is an assistant message. During a send that object is the
  placeholder, which is also the last entry of the API log, so the assignment shows in
  both logs. Each updater is taken to run when it is issued.
\<close>

definition updateLast :: "string \<Rightarrow> chatState \<Rightarrow> chatState" where
  "updateLast fullContent s =
     (if messages s \<noteq> [] \<and> role (last (messages s)) = Assistant then
        s\<lparr> messages := setLastContent (Text fullContent) (messages s),
           conversationRef := setLastContent (Text fullContent) (conversationRef s) \<rparr>
      else s)"

text \<open>One iteration of the \<^verbatim>\<open>for await\<close> loop, on \<open>(fullContent, isFirstChunk, state)\<close>.\<close>

definition streamStep :: "host \<Rightarrow> string \<times> bool \<times> chatState \<Rightarrow> jsval \<Rightarrow> string \<times> bool \<times> chatState" where
  "streamStep h acc part =
     (case acc of (fullContent, isFirstChunk, s) \<Rightarrow>
        (fullContent @ str h (chunkText part), False,
         updateLast (fullContent @ str h (chunkText part))
           (if isFirstChunk then s\<lparr>status := Ready\<rparr> else s)))"

definition streamLoop :: "host \<Rightarrow> jsval list \<Rightarrow> chatState \<Rightarrow> string \<times> bool \<times> chatState" where
  "streamLoop h chunks s = foldl (streamStep h) ([], True, s) chunks"

text \<open>\<^verbatim>\<open>xs[xs.length - 1] = v\<close>; on an empty array it adds no element.\<close>

definition replaceLast :: "'a \<Rightarrow> 'a list \<Rightarrow> 'a list" where
  "replaceLast v xs = xs[length xs - 1 := v]"

text \<open>Lines 659 to 670.\<close>

definition finalize :: "messageContent \<Rightarrow> chatState \<Rightarrow> chatState" where
  "finalize fullContent s =
     s\<lparr> conversationRef := replaceLast (plainMessage Assistant fullContent) (conversationRef s),
        messages := replaceLast (plainMessage Assistant fullContent) (messages s) \<rparr>"

fun contentOf :: "jsval \<Rightarrow> messageContent" where
  "contentOf (JStr s) = Text s"
| "contentOf v = Raw v"

text \<open>Lines 611 to 670, from the state that holds the placeholder.\<close>

definition consumeResponse :: "host \<Rightarrow> response \<Rightarrow> chatState \<Rightarrow> thrown option \<times> chatState" where
  "consumeResponse h resp s =
     (case resp of
        Stream chunks ending \<Rightarrow>
          (case streamLoop h chunks s of
             (fullContent, isFirstChunk, s') \<Rightarrow>
               (case ending of
                  Some e \<Rightarrow> (Some e, s')
                | None \<Rightarrow> (None, finalize (Text fullContent) s')))
      | Plain v \<Rightarrow>
          (case extractContent v of
             Throw e \<Rightarrow> (Some e, s)
           | Ok answer \<Rightarrow> (None, finalize (contentOf answer) (s\<lparr>status := Ready\<rparr>))))"

text \<open>Lines 572 to 670.\<close>

definition chatPhase :: "puterSDK \<Rightarrow> host \<Rightarrow> string \<Rightarrow> string \<Rightarrow> attachment list \<Rightarrow> chatState
    \<Rightarrow> thrown option \<times> chatState" where
  "chatPhase p h modelId textToSend uploadedFiles s =
     (let s' = s\<lparr> conversationRef := conversationRef s @ [userMessageForApi textToSend uploadedFiles] \<rparr>
      in case ai_chat p (conversationRef s') (chatOptionsFor modelId) of
           Throw e \<Rightarrow> (Some e, s')
         | Ok resp \<Rightarrow> consumeResponse h resp (startAssistant s'))"

text \<open>Lines 564 to 570.\<close>

definition uploadPhase :: "puterSDK \<Rightarrow> host \<Rightarrow> attachment list \<Rightarrow> string list
    \<Rightarrow> attachment list result \<times> string list" where
  "uploadPhase p h attachmentsToSend sess =
     (if attachmentsToSend \<noteq> [] then uploadAttachments (fs p) h attachmentsToSend sess
      else (Ok [], sess))"

text \<open>The \<^verbatim>\<open>try\<close> block, lines 531 to 671.\<close>

definition tryBlock :: "puterSDK option \<Rightarrow> host \<Rightarrow> string \<Rightarrow> string \<Rightarrow> attachment list \<Rightarrow> chatState
    \<Rightarrow> thrown option \<times> chatState" where
  "tryBlock P h modelId textToSend attachmentsToSend s =
     (case P of
        None \<Rightarrow> (Some (NativeError ''Puter SDK not loaded''), s)
      | Some p \<Rightarrow>
          if modelId = ''video-generation'' then videoPhase p textToSend attachmentsToSend s
          else case uploadPhase p h attachmentsToSend (sessionFilesRef s) of
            (Throw e, sess) \<Rightarrow> (Some e, s\<lparr>sessionFilesRef := sess\<rparr>)
          | (Ok uploadedFiles, sess) \<Rightarrow>
              chatPhase p h modelId textToSend uploadedFiles (s\<lparr>sessionFilesRef := sess\<rparr>))"

text \<open>Lines 675 to 691.\<close>

definition extractErrorText :: "host \<Rightarrow> thrown \<Rightarrow> string" where
  "extractErrorText h e =
     (case e of
        NativeError m \<Rightarrow> m
      | Thrown v \<Rightarrow>
          if truthy (optProp (optProp v ''error'') ''message'') then
            str h (optProp (optProp v ''error'') ''message'')
          else if truthy (optProp v ''message'') then str h (optProp v ''message'')
          else if typeof v = ''object'' then
            (case stringify h v of Some s \<Rightarrow> s | None \<Rightarrow> ''Unknown error object'')
          else if typeof v = ''string'' then str h v
          else ''Failed to get response'')"

definition errorMessage :: "host \<Rightarrow> thrown \<Rightarrow> message" where
  "errorMessage h e = plainMessage Assistant (Text (''Error: '' @ extractErrorText h e))"

text \<open>The \<^verbatim>\<open>catch\<close> block, lines 672 to 700.\<close>

definition catchBlock :: "host \<Rightarrow> thrown \<Rightarrow> chatState \<Rightarrow> chatState" where
  "catchBlock h e s = s\<lparr> messages := messages s @ [errorMessage h e], status := Error,
     timers := timers s @ [(3000, Ready)] \<rparr>"

text \<open>
  \<^verbatim>\<open>sendMessage\<close>, run to its end without another event in between. \<open>P\<close> is
  \<^verbatim>\<open>window.puter\<close> and \<open>modelId\<close> is \<^verbatim>\<open>model.id\<close>.
\<close>

definition sendMessage :: "puterSDK option \<Rightarrow> host \<Rightarrow> string \<Rightarrow> chatState \<Rightarrow> chatState" where
  "sendMessage P h modelId s =
     (if blocked s then s
      else case tryBlock P h modelId (trim (input s)) (attachments s) (beginTurn s) of
        (None, s') \<Rightarrow> s'
      | (Some e, s') \<Rightarrow> catchBlock h e s')"

text \<open>The oldest pending timer callback runs.\<close>

definition fireTimer :: "chatState \<Rightarrow> chatState" where
  "fireTimer s = (case timers s of [] \<Rightarrow> s | (delay, st) # rest \<Rightarrow> s\<lparr>status := st, timers := rest\<rparr>)"

text \<open>\<^verbatim>\<open>window.puter?.fs\<close>.\<close>

definition storageOf :: "puterSDK option \<Rightarrow> puterFS option" where
  "storageOf P = (case P of None \<Rightarrow> None | Some p \<Rightarrow> fs p)"

definition cleanupSession :: "puterSDK option \<Rightarrow> chatState \<Rightarrow> chatState" where
  "cleanupSession P s =
     s\<lparr> sessionFilesRef := remaining (cleanupSessionFiles (storageOf P) (sessionFilesRef s)) \<rparr>"

text \<open>
  The events of a session: typing, adding files (by the picker, a drop or a paste),
  removing an attachment, submitting, a timer callback, and the back button, which
  calls \<^verbatim>\<open>cleanupSessionFiles\<close>.
\<close>

datatype event =
    SetInput string
  | AddFiles "fileObj list" "nat \<Rightarrow> string"
  | RemoveAttachment string
  | Submit
  | TimerFires
  | Cleanup

fun step :: "puterSDK option \<Rightarrow> host \<Rightarrow> string \<Rightarrow> chatState \<Rightarrow> event \<Rightarrow> chatState" where
  "step P h modelId s (SetInput v) = s\<lparr>input := v\<rparr>"
| "step P h modelId s (AddFiles files ids) =
     s\<lparr>attachments := fst (addAttachments attachmentConfig h ids files (attachments s))\<rparr>"
| "step P h modelId s (RemoveAttachment ident) =
     s\<lparr>attachments := removeAttachment ident (attachments s)\<rparr>"
| "step P h modelId s Submit = sendMessage P h modelId s"
| "step P h modelId s TimerFires = fireTimer s"
| "step P h modelId s Cleanup = cleanupSession P s"

definition run :: "puterSDK option \<Rightarrow> host \<Rightarrow> string \<Rightarrow> chatState \<Rightarrow> event list \<Rightarrow> chatState" where
  "run P h modelId s evs = foldl (step P h modelId) s evs"

text \<open>
  The buffer \<^verbatim>\<open>fullContent\<close> after a list of chunks: their texts, each converted to a
  string, concatenated in order.
\<close>

definition texts :: "host \<Rightarrow> jsval list \<Rightarrow> string" where
  "texts h chunks = concat (map (\<lambda>part. str h (chunkText part)) chunks)"

section \<open>An example environment\<close>

text \<open>
  Concrete collaborators for the examples below: a host, a storage that stores every
  file under \<^verbatim>\<open>/tmp\<close>, and an SDK whose chat answers by the length of the conversation
  it is given.
\<close>

definition sampleHost :: host where
  "sampleHost = \<lparr> toStr = (\<lambda>v. ''[object Object]''), stringify = (\<lambda>v. Some ''{}''),
     formatFileSize = (\<lambda>n. showNat n @ '' Bytes''), stamp = (\<lambda>i. ''1700000000000_'' @ showNat i),
     createObjectURL = (\<lambda>f. ''blob:'' @ f_name f) \<rparr>"

definition sampleFS :: puterFS where
  "sampleFS = \<lparr> fs_write = (\<lambda>name fl. Ok (''/tmp/'' @ name)), fs_delete = (\<lambda>path. Ok ()) \<rparr>"

definition scriptedSDK :: "(nat \<Rightarrow> response result) \<Rightarrow> puterSDK" where
  "scriptedSDK script = \<lparr> ai_chat = (\<lambda>conversation opts. script (length conversation)),
     ai_txt2vid = (\<lambda>prompt opts. Ok ''blob:video''), fs = Some sampleFS \<rparr>"

definition samplePng :: fileObj where
  "samplePng = \<lparr> f_name = ''cat.png'', f_type = ''image/png'', f_size = 2048 \<rparr>"

definition sampleAttachment :: attachment where
  "sampleAttachment = createAttachment sampleHost ''att-1'' samplePng"

definition sampleZip :: fileObj where
  "sampleZip = \<lparr> f_name = ''a.zip'', f_type = ''application/zip'', f_size = 10 \<rparr>"

text \<open>A response whose message content is a sequence of two parts.\<close>

definition twoParts :: jsval where
  "twoParts = JObj [(''message'', JObj [(''content'',
     JArr [JObj [(''text'', JStr ''Hello, '')], JObj [(''text'', JStr ''world'')]])])]"

text \<open>
  An SDK that answers every chat with one streamed chunk and whose storage refuses to
  delete the first file of an upload.
\<close>

definition flakySDK :: puterSDK where
  "flakySDK = \<lparr> ai_chat = (\<lambda>conversation opts. Ok (Stream [JStr ''ok''] None)),
     ai_txt2vid = (\<lambda>prompt opts. Ok ''blob:video''),
     fs = Some \<lparr> fs_write = (\<lambda>name fl. Ok (''/tmp/'' @ name)),
       fs_delete = (\<lambda>path. if path = ''/tmp/claude_upload_1700000000000_0.png''
                             then Throw (NativeError ''permission denied'') else Ok ()) \<rparr> \<rparr>"

section \<open>The response normalizer never throws\<close>

lemma partText_total: "\<exists>s. partText item = Ok s"
  by (cases item) (auto simp: partText_def split: jsval.splits)

lemma mapResult_partText_total: "\<exists>ss. mapResult partText xs = Ok ss"
proof (induction xs)
  case Nil
  then show ?case by simp
next
  case (Cons x xs)
  obtain s where "partText x = Ok s" using partText_total by blast
  with Cons show ?case by auto
qed

lemma nullish_defined:
  "d \<noteq> JUndefined \<Longrightarrow> d \<noteq> JNull \<Longrightarrow> nullish v d \<noteq> JUndefined \<and> nullish v d \<noteq> JNull"
  by (cases v) auto

lemma getProp_defined: "v \<noteq> JUndefined \<Longrightarrow> v \<noteq> JNull \<Longrightarrow> getProp v k = Ok (optProp v k)"
  by (cases v) auto

lemma inOp_object: "typeof c = ''object'' \<Longrightarrow> c \<noteq> JNull \<Longrightarrow> \<exists>b. inOp k c = Ok b"
  by (cases c) auto

text \<open>
  On every payload \<^verbatim>\<open>extractResponseText\<close> returns a value: each property read and the
  \<^verbatim>\<open>in\<close> test sit behind a guard that excludes \<^verbatim>\<open>null\<close> and \<^verbatim>\<open>undefined\<close>.
\<close>

lemma extractResponseText_never_throws: "\<exists>v. extractResponseText payload = Ok v"
proof (cases "truthy payload")
  case False
  then show ?thesis by (simp add: extractResponseText_def)
next
  case True
  then have pd: "payload \<noteq> JUndefined" "payload \<noteq> JNull" by auto
  define message where "message = nullish (optProp payload ''message'') payload"
  have md: "message \<noteq> JUndefined" "message \<noteq> JNull"
    using nullish_defined[OF pd] by (simp_all add: message_def)
  have gm: "getProp message k = Ok (optProp message k)" for k
    using md by (rule getProp_defined)
  have gp: "getProp payload k = Ok (optProp payload k)" for k
    using pd by (rule getProp_defined)
  obtain ss where ss: "mapResult partText (elems (optProp message ''content'')) = Ok ss"
    using mapResult_partText_total by blast
  show ?thesis
  proof (cases "typeof (optProp message ''content'') = ''object'' \<and> optProp message ''content'' \<noteq> JNull")
    case True
    then obtain b where b: "inOp ''text'' (optProp message ''content'') = Ok b"
      using inOp_object by blast
    have gc: "getProp (optProp message ''content'') k = Ok (optProp (optProp message ''content'') k)" for k
      using True by (intro getProp_defined) auto
    show ?thesis
      using True b ss by (simp add: extractResponseText_def gp gm gc message_def[symmetric] Let_def)
  next
    case False
    then show ?thesis
      using ss by (auto simp add: extractResponseText_def gp gm message_def[symmetric] Let_def)
  qed
qed

text \<open>
  Claim C6. The response normalizer is meant to return a string on every input and the
  empty string on every shape outside its list. It never throws (lemma
  \<open>extractResponseText_never_throws\<close>), but its last branch returns
  \<^verbatim>\<open>message.content.text ?? ''\<close> without the \<^verbatim>\<open>typeof\<close> test of the other branches: on
  \<^verbatim>\<open>{message: {content: {text: 42}}}\<close> the result is the number 42.
\<close>

theorem extractResponseText_returns_non_string:
  "extractResponseText (JObj [(''message'', JObj [(''content'', JObj [(''text'', JNum 42)])])])
     = Ok (JNum 42)"
  by (simp add: extractResponseText_def)

section \<open>Streaming and the two logs\<close>

lemma setLastContent_snoc: "setLastContent c (xs @ [m]) = xs @ [m\<lparr>content := c\<rparr>]"
  by (induction c xs rule: setLastContent.induct) auto

lemma replaceLast_snoc: "replaceLast v (xs @ [m]) = xs @ [v]"
  by (simp add: replaceLast_def)

lemma streamStep_snoc:
  assumes "messages s = ms @ [m]" "role m = Assistant" "conversationRef s = cs @ [m']"
  shows "streamStep h (fc, b, s) part =
     (fc @ str h (chunkText part), False,
      s\<lparr> status := (if b then Ready else status s),
         messages := ms @ [m\<lparr>content := Text (fc @ str h (chunkText part))\<rparr>],
         conversationRef := cs @ [m'\<lparr>content := Text (fc @ str h (chunkText part))\<rparr>] \<rparr>)"
  using assms by (simp add: streamStep_def updateLast_def setLastContent_snoc)

lemma foldl_streamStep:
  assumes "messages s = ms @ [m]" "role m = Assistant" "conversationRef s = cs @ [m']"
  shows "foldl (streamStep h) (fc, b, s) chunks =
     (fc @ texts h chunks, b \<and> chunks = [],
      if chunks = [] then s
      else s\<lparr> status := (if b then Ready else status s),
             messages := ms @ [m\<lparr>content := Text (fc @ texts h chunks)\<rparr>],
             conversationRef := cs @ [m'\<lparr>content := Text (fc @ texts h chunks)\<rparr>] \<rparr>)"
  using assms
proof (induction chunks arbitrary: fc b s m m')
  case Nil
  then show ?case by (simp add: texts_def)
next
  case (Cons part rest)
  let ?t = "fc @ str h (chunkText part)"
  let ?s = "s\<lparr> status := (if b then Ready else status s),
         messages := ms @ [m\<lparr>content := Text ?t\<rparr>],
         conversationRef := cs @ [m'\<lparr>content := Text ?t\<rparr>] \<rparr>"
  have step: "streamStep h (fc, b, s) part = (?t, False, ?s)"
    using Cons.prems by (rule streamStep_snoc)
  have ih: "foldl (streamStep h) (?t, False, ?s) rest =
     (?t @ texts h rest, False \<and> rest = [],
      if rest = [] then ?s
      else ?s\<lparr> status := (if False then Ready else status ?s),
             messages := ms @ [(m\<lparr>content := Text ?t\<rparr>)\<lparr>content := Text (?t @ texts h rest)\<rparr>],
             conversationRef := cs @ [(m'\<lparr>content := Text ?t\<rparr>)\<lparr>content := Text (?t @ texts h rest)\<rparr>] \<rparr>)"
    by (rule Cons.IH) (use Cons.prems in simp_all)
  have t: "texts h (part # rest) = str h (chunkText part) @ texts h rest"
    by (simp add: texts_def)
  show ?case
    by (simp only: foldl_Cons step ih t) (cases "rest = []"; simp add: texts_def)
qed

lemma streamLoop_startAssistant:
  "streamLoop h chunks (startAssistant s) =
     (texts h chunks, chunks = [],
      s\<lparr> status := (if chunks = [] then Thinking else Ready),
         messages := messages s @ [placeholder\<lparr>content := Text (texts h chunks)\<rparr>],
         conversationRef := conversationRef s @ [placeholder\<lparr>content := Text (texts h chunks)\<rparr>] \<rparr>)"
proof -
  have a: "messages (startAssistant s) = messages s @ [placeholder]"
    and b: "role placeholder = Assistant"
    and c: "conversationRef (startAssistant s) = conversationRef s @ [placeholder]"
    by (simp_all add: startAssistant_def placeholder_def)
  show ?thesis
    unfolding streamLoop_def foldl_streamStep[OF a b c]
    by (cases "chunks = []") (simp_all add: startAssistant_def texts_def placeholder_def)
qed

lemma consumeResponse_Stream:
  "consumeResponse h (Stream chunks ending) (startAssistant s) =
     (ending,
      s\<lparr> status := (if chunks = [] then Thinking else Ready),
         messages := messages s @
           [case ending of None \<Rightarrow> plainMessage Assistant (Text (texts h chunks))
            | Some e \<Rightarrow> placeholder\<lparr>content := Text (texts h chunks)\<rparr>],
         conversationRef := conversationRef s @
           [case ending of None \<Rightarrow> plainMessage Assistant (Text (texts h chunks))
            | Some e \<Rightarrow> placeholder\<lparr>content := Text (texts h chunks)\<rparr>] \<rparr>)"
  by (cases ending)
     (simp_all add: consumeResponse_def streamLoop_startAssistant finalize_def replaceLast_snoc)

lemma consumeResponse_Plain:
  "consumeResponse h (Plain v) (startAssistant s) =
     (case extractContent v of
        Throw e \<Rightarrow> (Some e, startAssistant s)
      | Ok answer \<Rightarrow>
          (None, s\<lparr> status := Ready,
                    messages := messages s @ [plainMessage Assistant (contentOf answer)],
                    conversationRef := conversationRef s @ [plainMessage Assistant (contentOf answer)] \<rparr>))"
  by (cases "extractContent v")
     (simp_all add: consumeResponse_def finalize_def startAssistant_def replaceLast_snoc)

text \<open>The chat phase, with the consumption of the response worked out.\<close>

lemma chatPhase_eq:
  "chatPhase p h modelId text up s =
     (case ai_chat p (conversationRef s @ [userMessageForApi text up]) (chatOptionsFor modelId) of
        Throw e \<Rightarrow> (Some e, s\<lparr>conversationRef := conversationRef s @ [userMessageForApi text up]\<rparr>)
      | Ok resp \<Rightarrow>
          (case resp of
             Stream chunks ending \<Rightarrow>
               (ending,
                s\<lparr> status := (if chunks = [] then Thinking else Ready),
                   messages := messages s @
                     [case ending of None \<Rightarrow> plainMessage Assistant (Text (texts h chunks))
                      | Some e \<Rightarrow> placeholder\<lparr>content := Text (texts h chunks)\<rparr>],
                   conversationRef := conversationRef s @
                     [userMessageForApi text up,
                      case ending of None \<Rightarrow> plainMessage Assistant (Text (texts h chunks))
                      | Some e \<Rightarrow> placeholder\<lparr>content := Text (texts h chunks)\<rparr>] \<rparr>)
           | Plain v \<Rightarrow>
               (case extractContent v of
                  Throw e \<Rightarrow>
                    (Some e, s\<lparr> status := Thinking, messages := messages s @ [placeholder],
                       conversationRef := conversationRef s @ [userMessageForApi text up, placeholder] \<rparr>)
                | Ok answer \<Rightarrow>
                    (None, s\<lparr> status := Ready,
                       messages := messages s @ [plainMessage Assistant (contentOf answer)],
                       conversationRef := conversationRef s @
                         [userMessageForApi text up, plainMessage Assistant (contentOf answer)] \<rparr>))))"
  apply (simp add: chatPhase_def Let_def consumeResponse_Stream consumeResponse_Plain
      split: result.splits response.splits option.splits)
  apply (auto simp: startAssistant_def)
  done

text \<open>Unfolding a send on concrete inputs.\<close>

lemmas send_defs = sendMessage_def blocked_def trim_def isSpace_def beginTurn_def tryBlock_def
  uploadPhase_def chatPhase_eq userMessageDisplay_def sanitizeAttachments_def initialState_def
  scriptedSDK_def catchBlock_def errorMessage_def extractErrorText_def plainMessage_def
  userMessageForApi_def buildUserMessageContent_def texts_def chunkText_def placeholder_def
  videoPhase_def videoMessage_def

text \<open>
  Claim C5. The non-streaming branch is meant to run the full response normalizer, which
  concatenates the text of every part of a content sequence. It runs the local
  \<^verbatim>\<open>extractContent\<close> instead, which returns \<^verbatim>\<open>message.content[0].text\<close>: on a content of
  two parts, \<^verbatim>\<open>Hello, \<close> and \<^verbatim>\<open>world\<close>, \<^verbatim>\<open>extractResponseText\<close> gives both, while
  \<^verbatim>\<open>extractContent\<close>, and with it the assistant message of both logs, has the first only.
\<close>

theorem nonstreaming_fallback_first_part_only:
  "extractContent twoParts = Ok (JStr ''Hello, '')
   \<and> extractResponseText twoParts = Ok (JStr ''Hello, world'')
   \<and> sendMessage (Some (scriptedSDK (\<lambda>n. Ok (Plain twoParts)))) sampleHost ''gpt-4o''
        (initialState\<lparr>input := ''hi''\<rparr>)
      = initialState\<lparr> status := Ready,
          messages := [\<lparr> role = User, content = Text ''hi'', msg_attachments = Some [],
                          videoUrl = None, isStreaming = False \<rparr>,
                       plainMessage Assistant (Text ''Hello, '')],
          conversationRef := [plainMessage User (Text ''hi''),
                              plainMessage Assistant (Text ''Hello, '')] \<rparr>"
  by (simp add: send_defs extractContent_def extractResponseText_def partText_def twoParts_def)

section \<open>Attachment validation\<close>

lemma validateFile_None_iff:
  "validateFile cfg h f n = None \<longleftrightarrow>
     f_type f \<in> set (allowedTypes cfg) \<and> f_size f \<le> maxSize cfg \<and> n < maxCount cfg"
  by (auto simp: validateFile_def)

text \<open>
  The loop accepts the files of allowed type and size for as long as there is room: the
  additions are the first \<open>maxCount - runningCount\<close> of them, in order.
\<close>

lemma addLoop_closed_form:
  "fst (addLoop cfg h ids files additions errors rc) =
     additions @ map (\<lambda>(k, f). createAttachment h (ids k) f)
       (enumerate (length additions) (take (maxCount cfg - rc)
          (filter (\<lambda>f. f_type f \<in> set (allowedTypes cfg) \<and> f_size f \<le> maxSize cfg) files)))"
proof (induction files arbitrary: additions errors rc)
  case Nil
  then show ?case by simp
next
  case (Cons f fs)
  show ?case
  proof (cases "validateFile cfg h f rc")
    case None
    then have ok: "f_type f \<in> set (allowedTypes cfg)" "f_size f \<le> maxSize cfg" "rc < maxCount cfg"
      by (simp_all add: validateFile_None_iff)
    then obtain d where d: "maxCount cfg - rc = Suc d" "maxCount cfg - (rc + 1) = d"
      by (cases "maxCount cfg - rc") auto
    show ?thesis using None ok d by (simp add: Cons.IH)
  next
    case (Some err)
    then have "\<not> (f_type f \<in> set (allowedTypes cfg) \<and> f_size f \<le> maxSize cfg \<and> rc < maxCount cfg)"
      using validateFile_None_iff[of cfg h f rc] by simp
    then show ?thesis using Some by (auto simp: Cons.IH)
  qed
qed

lemma addLoop_errors:
  "length (fst (snd (addLoop cfg h ids files additions errors rc)))
     + length (fst (addLoop cfg h ids files additions errors rc))
     = length errors + length additions + length files"
  by (induction files arbitrary: additions errors rc) (auto split: option.splits)

text \<open>
  Claim C7. Validation is a function of the file, the count and the configuration. A file
  whose type is outside the allow-list is rejected whatever its size and the count; a file
  of an allowed type above the size ceiling is rejected; at a count that has reached the
  maximum every file is rejected; a file is accepted exactly when none of the three
  applies. In a batch, the collection grows by the files of allowed type and size, in
  order, up to the room left (\<open>maxCount\<close> less the attachments already held), so only an
  accepted file uses up room and no rejected file enters; every other file of the batch
  is reported as an error.
\<close>

theorem attachment_validation:
  "(f_type f \<notin> set (allowedTypes cfg) \<longrightarrow> validateFile cfg h f n \<noteq> None)
   \<and> (f_type f \<in> set (allowedTypes cfg) \<and> f_size f > maxSize cfg \<longrightarrow> validateFile cfg h f n \<noteq> None)
   \<and> (n \<ge> maxCount cfg \<longrightarrow> validateFile cfg h f n \<noteq> None)
   \<and> (validateFile cfg h f n = None \<longleftrightarrow>
        f_type f \<in> set (allowedTypes cfg) \<and> f_size f \<le> maxSize cfg \<and> n < maxCount cfg)
   \<and> fst (addAttachments cfg h ids files current) =
        current @ map (\<lambda>(k, f). createAttachment h (ids k) f)
          (enumerate 0 (take (maxCount cfg - length current)
             (filter (\<lambda>f. f_type f \<in> set (allowedTypes cfg) \<and> f_size f \<le> maxSize cfg) files)))
   \<and> length (snd (addAttachments cfg h ids files current)) =
        length files - length (take (maxCount cfg - length current)
             (filter (\<lambda>f. f_type f \<in> set (allowedTypes cfg) \<and> f_size f \<le> maxSize cfg) files))"
proof -
  have v: "validateFile cfg h f n = None \<longleftrightarrow>
        f_type f \<in> set (allowedTypes cfg) \<and> f_size f \<le> maxSize cfg \<and> n < maxCount cfg"
    by (rule validateFile_None_iff)
  have a: "fst (addAttachments cfg h ids files current) =
        current @ map (\<lambda>(k, f). createAttachment h (ids k) f)
          (enumerate 0 (take (maxCount cfg - length current)
             (filter (\<lambda>f. f_type f \<in> set (allowedTypes cfg) \<and> f_size f \<le> maxSize cfg) files)))"
    using addLoop_closed_form[of cfg h ids files "[]" "[]" "length current"]
    by (auto simp: addAttachments_def split: prod.splits)
  have e: "length (snd (addAttachments cfg h ids files current)) =
        length files - length (take (maxCount cfg - length current)
             (filter (\<lambda>f. f_type f \<in> set (allowedTypes cfg) \<and> f_size f \<le> maxSize cfg) files))"
    using addLoop_closed_form[of cfg h ids files "[]" "[]" "length current"]
      addLoop_errors[of cfg h ids files "[]" "[]" "length current"]
    by (auto simp: addAttachments_def split: prod.splits)
  from v a e show ?thesis by auto
qed

text \<open>
  With the component's configuration: a zip archive, a PNG of 10 MB and one byte, and a
  PNG offered when five attachments exist are rejected; with room for one file, a batch of
  a zip archive and two PNGs adds the first PNG only and reports two errors.
\<close>

theorem attachment_validation_witness:
  "validateFile attachmentConfig sampleHost sampleZip 0 \<noteq> None
   \<and> validateFile attachmentConfig sampleHost (samplePng\<lparr>f_size := 10485761\<rparr>) 0 \<noteq> None
   \<and> validateFile attachmentConfig sampleHost samplePng 5 \<noteq> None
   \<and> validateFile attachmentConfig sampleHost samplePng 4 = None
   \<and> fst (addAttachments (attachmentConfig\<lparr>maxCount := 1\<rparr>) sampleHost (\<lambda>k. ''att-1'')
        [sampleZip, samplePng, samplePng] []) = [sampleAttachment]
   \<and> length (snd (addAttachments (attachmentConfig\<lparr>maxCount := 1\<rparr>) sampleHost (\<lambda>k. ''att-1'')
        [sampleZip, samplePng, samplePng] [])) = 2"
  using attachment_validation[of sampleZip attachmentConfig sampleHost 0]
    attachment_validation[of "samplePng\<lparr>f_size := 10485761\<rparr>" attachmentConfig sampleHost 0]
    attachment_validation[of samplePng attachmentConfig sampleHost 5]
    attachment_validation[of samplePng attachmentConfig sampleHost 4]
    attachment_validation[of samplePng "attachmentConfig\<lparr>maxCount := 1\<rparr>" sampleHost 0
      "\<lambda>k. ''att-1''" "[sampleZip, samplePng, samplePng]" "[]"]
  by (simp add: attachmentConfig_def samplePng_def sampleZip_def sampleAttachment_def enumerate_eq_zip)

section \<open>Upload and reference\<close>

lemma fileParts_paths:
  "fileParts uploaded = map FilePart (filter (\<lambda>p. p \<noteq> []) (List.map_filter puterPath uploaded))"
  by (induction uploaded) (auto simp: List.map_filter_simps split: option.splits)

lemma uploadLoop_written:
  "uploadLoop f h files uploaded sess i = (Ok result, sess') \<Longrightarrow>
     \<exists>new. result = uploaded @ new
       \<and> list_all2 (\<lambda>(j, a) u. \<exists>fl path. a_file a = Some fl
             \<and> fs_write f (generateTempFilename h j (a_name a)) fl = Ok path
             \<and> u = a\<lparr>a_file := None, puterPath := Some path\<rparr>)
           (enumerate i (filter (\<lambda>a. a_file a \<noteq> None) files)) new"
proof (induction files arbitrary: uploaded sess i)
  case Nil
  then show ?case by simp
next
  case (Cons a rest)
  show ?case
  proof (cases "a_file a")
    case None
    with Cons show ?thesis by simp
  next
    case (Some fl)
    show ?thesis
    proof (cases "fs_write f (generateTempFilename h i (a_name a)) fl")
      case (Throw e)
      with Some Cons.prems show ?thesis by simp
    next
      case (Ok path)
      with Some Cons.prems have
        "uploadLoop f h rest (uploaded @ [a\<lparr>a_file := None, puterPath := Some path\<rparr>])
           (setAdd path sess) (i + 1) = (Ok result, sess')" by simp
      from Cons.IH[OF this] obtain new where
        new: "result = (uploaded @ [a\<lparr>a_file := None, puterPath := Some path\<rparr>]) @ new"
          "list_all2 (\<lambda>(j, a) u. \<exists>fl path. a_file a = Some fl
             \<and> fs_write f (generateTempFilename h j (a_name a)) fl = Ok path
             \<and> u = a\<lparr>a_file := None, puterPath := Some path\<rparr>)
           (enumerate (i + 1) (filter (\<lambda>a. a_file a \<noteq> None) rest)) new"
        by blast
      with Some Ok show ?thesis by simp
    qed
  qed
qed

text \<open>
  Claim C8, as the code has it. When an upload succeeds, the uploaded attachments are the
  attachments that had a file, in their order, each with the path that its write returned
  and without its file. The content built from them is the plain text when nothing was
  uploaded; otherwise it is one file-reference part for each returned path that is not the
  empty string, in that order, followed by a text part exactly when the text is not
  empty.
\<close>

theorem upload_then_reference:
  "uploadAttachments (Some f) h files sess = (Ok uploaded, sess') \<Longrightarrow>
     list_all2 (\<lambda>(j, a) u. \<exists>fl path. a_file a = Some fl
           \<and> fs_write f (generateTempFilename h j (a_name a)) fl = Ok path
           \<and> u = a\<lparr>a_file := None, puterPath := Some path\<rparr>)
         (enumerate 0 (filter (\<lambda>a. a_file a \<noteq> None) files)) uploaded
     \<and> buildUserMessageContent text uploaded =
         (if uploaded = [] then Text text
          else Parts (map FilePart (filter (\<lambda>p. p \<noteq> []) (List.map_filter puterPath uploaded))
                 @ (if text \<noteq> [] then [TextPart text] else [])))"
  using uploadLoop_written[of f h files "[]" sess 0 uploaded sess']
  by (auto simp: uploadAttachments_def buildUserMessageContent_def fileParts_paths)

text \<open>
  With the example storage, the PNG is written to
  \<^verbatim>\<open>/tmp/claude_upload_1700000000000_0.png\<close>, and the content for the text \<^verbatim>\<open>hi\<close> is the
  reference to that path followed by the text.
\<close>

theorem upload_then_reference_witness:
  "uploadAttachments (Some sampleFS) sampleHost [sampleAttachment] []
     = (Ok [sampleAttachment\<lparr>a_file := None,
              puterPath := Some ''/tmp/claude_upload_1700000000000_0.png''\<rparr>],
        [''/tmp/claude_upload_1700000000000_0.png''])
   \<and> buildUserMessageContent ''hi''
        [sampleAttachment\<lparr>a_file := None, puterPath := Some ''/tmp/claude_upload_1700000000000_0.png''\<rparr>]
     = Parts [FilePart ''/tmp/claude_upload_1700000000000_0.png'', TextPart ''hi'']"
proof -
  have up: "uploadAttachments (Some sampleFS) sampleHost [sampleAttachment] []
     = (Ok [sampleAttachment\<lparr>a_file := None,
              puterPath := Some ''/tmp/claude_upload_1700000000000_0.png''\<rparr>],
        [''/tmp/claude_upload_1700000000000_0.png''])"
    by (simp add: uploadAttachments_def sampleAttachment_def createAttachment_def setAdd_def Let_def
        sampleFS_def sampleHost_def generateTempFilename_def extensionOf_def isAlnum_def samplePng_def)
  from upload_then_reference[OF up, of "''hi''"] up show ?thesis
    by (simp add: List.map_filter_simps)
qed

text \<open>
  Claim C8 as stated fails when a write returns the empty path: the filter of
  \<^verbatim>\<open>buildUserMessageContent\<close> drops the attachment, and the content has no file
  reference for the path that the upload returned.
\<close>

theorem upload_then_reference_counterexample:
  "uploadAttachments (Some \<lparr> fs_write = (\<lambda>name fl. Ok []), fs_delete = (\<lambda>path. Ok ()) \<rparr>)
       sampleHost [sampleAttachment] []
     = (Ok [sampleAttachment\<lparr>a_file := None, puterPath := Some []\<rparr>], [[]])
   \<and> buildUserMessageContent ''hi'' [sampleAttachment\<lparr>a_file := None, puterPath := Some []\<rparr>]
     = Parts [TextPart ''hi'']"
  by (simp add: uploadAttachments_def sampleAttachment_def createAttachment_def setAdd_def
      buildUserMessageContent_def Let_def)

section \<open>The shape of a send\<close>


lemma chatPhase_frame:
  "sessionFilesRef (snd (chatPhase p h modelId text up s)) = sessionFilesRef s
   \<and> timers (snd (chatPhase p h modelId text up s)) = timers s
   \<and> input (snd (chatPhase p h modelId text up s)) = input s
   \<and> attachments (snd (chatPhase p h modelId text up s)) = attachments s"
  by (simp add: chatPhase_eq split: result.splits response.splits option.splits)

lemma videoPhase_frame:
  "sessionFilesRef (snd (videoPhase p text atts s)) = sessionFilesRef s
   \<and> timers (snd (videoPhase p text atts s)) = timers s
   \<and> input (snd (videoPhase p text atts s)) = input s
   \<and> attachments (snd (videoPhase p text atts s)) = attachments s"
  by (simp add: videoPhase_def Let_def split: result.splits)


lemma tryBlock_sessionFiles:
  "sessionFilesRef (snd (tryBlock P h modelId text atts s)) =
     (case P of None \<Rightarrow> sessionFilesRef s
      | Some p \<Rightarrow> if modelId = ''video-generation'' then sessionFilesRef s
                  else snd (uploadPhase p h atts (sessionFilesRef s)))"
  by (simp add: tryBlock_def chatPhase_frame videoPhase_frame
      split: option.splits prod.splits result.splits)







section \<open>Streaming accumulation\<close>



section \<open>A failed send\<close>







section \<open>A successful turn\<close>




section \<open>An empty stream\<close>






section \<open>Cleanup of the session files\<close>

lemma setAdd_distinct: "distinct xs \<Longrightarrow> distinct (setAdd x xs)"
  by (simp add: setAdd_def)

lemma uploadLoop_distinct: "distinct sess \<Longrightarrow> distinct (snd (uploadLoop f h files uploaded sess i))"
  by (induction files arbitrary: uploaded sess i)
     (auto simp: setAdd_distinct split: option.splits result.splits)

lemma uploadPhase_distinct: "distinct sess \<Longrightarrow> distinct (snd (uploadPhase p h atts sess))"
  by (auto simp: uploadPhase_def uploadAttachments_def uploadLoop_distinct split: option.splits)

lemma uploadPhase_no_fs: "fs p = None \<Longrightarrow> snd (uploadPhase p h atts sess) = sess"
  by (simp add: uploadPhase_def uploadAttachments_def)

lemma sendMessage_sessionFiles:
  "sessionFilesRef (sendMessage P h modelId s) =
     (if blocked s then sessionFilesRef s
      else case P of None \<Rightarrow> sessionFilesRef s
      | Some p \<Rightarrow> if modelId = ''video-generation'' then sessionFilesRef s
                  else snd (uploadPhase p h (attachments s) (sessionFilesRef s)))"
proof (cases "blocked s")
  case True
  then show ?thesis by (simp add: sendMessage_def)
next
  case False
  obtain outcome sf
    where t: "tryBlock P h modelId (trim (input s)) (attachments s) (beginTurn s) = (outcome, sf)"
    by (cases "tryBlock P h modelId (trim (input s)) (attachments s) (beginTurn s)")
  have "sessionFilesRef (sendMessage P h modelId s) = sessionFilesRef sf"
    using False t by (cases outcome) (simp_all add: sendMessage_def catchBlock_def)
  moreover have "sessionFilesRef sf =
      sessionFilesRef (snd (tryBlock P h modelId (trim (input s)) (attachments s) (beginTurn s)))"
    using t by simp
  ultimately show ?thesis
    using False by (simp add: tryBlock_sessionFiles beginTurn_def split: option.splits)
qed

text \<open>
  In a session with one SDK, the session file set has no path twice, and it holds a path
  only if the SDK has a storage: a path enters the set after a write of that storage.
\<close>

lemma step_sessionFiles_inv:
  assumes "distinct (sessionFilesRef s)" "sessionFilesRef s = [] \<or> storageOf P \<noteq> None"
  shows "distinct (sessionFilesRef (step P h modelId s ev))
     \<and> (sessionFilesRef (step P h modelId s ev) = [] \<or> storageOf P \<noteq> None)"
proof (cases ev)
  case Submit
  show ?thesis
  proof (cases "storageOf P")
    case None
    then have "sessionFilesRef (sendMessage P h modelId s) = sessionFilesRef s"
      by (auto simp: sendMessage_sessionFiles storageOf_def uploadPhase_no_fs split: option.splits)
    with assms Submit show ?thesis by simp
  next
    case (Some f)
    have "distinct (sessionFilesRef (sendMessage P h modelId s))"
      using assms(1) by (auto simp: sendMessage_sessionFiles uploadPhase_distinct split: option.splits)
    with Some Submit show ?thesis by simp
  qed
next
  case Cleanup
  then show ?thesis
    using assms by (auto simp: cleanupSession_def cleanupSessionFiles_def split: option.splits)
qed (use assms in \<open>simp_all add: fireTimer_def split: list.splits\<close>)

lemma run_sessionFiles_inv:
  assumes "distinct (sessionFilesRef s)" "sessionFilesRef s = [] \<or> storageOf P \<noteq> None"
  shows "distinct (sessionFilesRef (run P h modelId s evs))
     \<and> (sessionFilesRef (run P h modelId s evs) = [] \<or> storageOf P \<noteq> None)"
  using assms
proof (induction evs arbitrary: s)
  case Nil
  then show ?case by (simp add: run_def)
next
  case (Cons ev evs)
  from step_sessionFiles_inv[OF Cons.prems, of h modelId ev]
  have "distinct (sessionFilesRef (step P h modelId s ev))"
    "sessionFilesRef (step P h modelId s ev) = [] \<or> storageOf P \<noteq> None"
    by simp_all
  from Cons.IH[OF this] show ?case by (simp add: run_def)
qed

text \<open>
  Claim C9. In every state that a session reaches from the initial state, the first
  cleanup leaves the session file set empty, so a second cleanup, made after the first
  has returned, attempts no deletion and changes nothing; the first cleanup attempts each
  recorded path once; and with a storage present it attempts the deletion of every
  recorded path, in order, each attempt ending in its own outcome, whatever the storage
  answers for the other paths. A cleanup always returns: a rejected deletion becomes a
  logged warning.
\<close>

theorem cleanupSession_idempotent:
  "remaining (cleanupSessionFiles (storageOf P)
       (sessionFilesRef (run P h modelId initialState evs))) = []
   \<and> attempts (cleanupSessionFiles (storageOf P)
       (remaining (cleanupSessionFiles (storageOf P)
          (sessionFilesRef (run P h modelId initialState evs))))) = []
   \<and> sessionFilesRef (cleanupSession P (run P h modelId initialState evs)) = []
   \<and> cleanupSession P (cleanupSession P (run P h modelId initialState evs))
       = cleanupSession P (run P h modelId initialState evs)
   \<and> distinct (map fst (attempts (cleanupSessionFiles (storageOf P)
       (sessionFilesRef (run P h modelId initialState evs)))))
   \<and> (\<forall>f. storageOf P = Some f \<longrightarrow>
        attempts (cleanupSessionFiles (storageOf P) (sessionFilesRef (run P h modelId initialState evs)))
          = map (\<lambda>path. (path, case fs_delete f path of Throw e \<Rightarrow> Some e | Ok u \<Rightarrow> None))
              (sessionFilesRef (run P h modelId initialState evs)))"
proof -
  let ?s = "run P h modelId initialState evs"
  have inv: "distinct (sessionFilesRef ?s)" "sessionFilesRef ?s = [] \<or> storageOf P \<noteq> None"
    using run_sessionFiles_inv[of initialState P h modelId evs] by (simp_all add: initialState_def)
  have d1: "deleteOne f = (\<lambda>path. (path, case fs_delete f path of Throw e \<Rightarrow> Some e | Ok u \<Rightarrow> None))" for f
    by (auto simp: deleteOne_def fun_eq_iff split: result.splits)
  have fsts: "map (fst \<circ> deleteOne f) xs = xs" for f xs
    by (induction xs) (auto simp: deleteOne_def split: result.splits)
  show ?thesis
    using inv
    by (auto simp: cleanupSessionFiles_def cleanupSession_def d1[symmetric] fsts
        split: option.splits)
qed

text \<open>
  Two PNG files and a zip archive are offered, the two PNG files are uploaded with the
  text \<^verbatim>\<open>look\<close>, and the storage refuses to delete the first of them: the cleanup
  attempts both deletions, the second succeeds, and the set is empty after one cleanup
  and after two.
\<close>

theorem cleanupSession_idempotent_witness:
  "attempts (cleanupSessionFiles (storageOf (Some flakySDK))
      (sessionFilesRef (run (Some flakySDK) sampleHost ''gpt-4o'' initialState
        [AddFiles [samplePng, sampleZip, samplePng] (\<lambda>k. ''att''), SetInput ''look'', Submit])))
    = [(''/tmp/claude_upload_1700000000000_0.png'', Some (NativeError ''permission denied'')),
       (''/tmp/claude_upload_1700000000000_1.png'', None)]
   \<and> sessionFilesRef (cleanupSession (Some flakySDK)
        (run (Some flakySDK) sampleHost ''gpt-4o'' initialState
          [AddFiles [samplePng, sampleZip, samplePng] (\<lambda>k. ''att''), SetInput ''look'', Submit])) = []
   \<and> sessionFilesRef (run (Some flakySDK) sampleHost ''gpt-4o'' initialState
        [AddFiles [samplePng, sampleZip, samplePng] (\<lambda>k. ''att''), SetInput ''look'', Submit,
         Cleanup, Cleanup]) = []"
proof -
  let ?evs = "[AddFiles [samplePng, sampleZip, samplePng] (\<lambda>k. ''att''), SetInput ''look'', Submit]"
  let ?s = "run (Some flakySDK) sampleHost ''gpt-4o'' initialState ?evs"
  note th = cleanupSession_idempotent[of "Some flakySDK" sampleHost "''gpt-4o''" ?evs]
  have files: "sessionFilesRef ?s
      = [''/tmp/claude_upload_1700000000000_0.png'', ''/tmp/claude_upload_1700000000000_1.png'']"
    by (simp add: run_def send_defs flakySDK_def addAttachments_def validateFile_def attachmentConfig_def
        createAttachment_def samplePng_def sampleZip_def uploadAttachments_def generateTempFilename_def
        extensionOf_def isAlnum_def sampleHost_def setAdd_def Let_def)
  have f: "storageOf (Some flakySDK) = Some \<lparr> fs_write = (\<lambda>name fl. Ok (''/tmp/'' @ name)),
       fs_delete = (\<lambda>path. if path = ''/tmp/claude_upload_1700000000000_0.png''
                             then Throw (NativeError ''permission denied'') else Ok ()) \<rparr>"
    by (simp add: flakySDK_def storageOf_def)
  from th f have a: "attempts (cleanupSessionFiles (storageOf (Some flakySDK)) (sessionFilesRef ?s))
      = map (\<lambda>path. (path, case (if path = ''/tmp/claude_upload_1700000000000_0.png''
                             then Throw (NativeError ''permission denied'') else Ok ())
               of Throw e \<Rightarrow> Some e | Ok u \<Rightarrow> None))
          (sessionFilesRef ?s)"
    by simp
  from th have b: "sessionFilesRef (cleanupSession (Some flakySDK) ?s) = []"
    and c: "cleanupSession (Some flakySDK) (cleanupSession (Some flakySDK) ?s)
       = cleanupSession (Some flakySDK) ?s"
    by blast+
  have d: "run (Some flakySDK) sampleHost ''gpt-4o'' initialState (?evs @ [Cleanup, Cleanup])
      = cleanupSession (Some flakySDK) (cleanupSession (Some flakySDK) ?s)"
    by (simp only: run_def foldl_append foldl_Cons foldl_Nil step.simps)
  from a b c d show ?thesis
    by (simp add: files)
qed

end
